theory Spec2Isabelle
  imports Main
begin

section \<open>Disaster-response coordination application (main5.py)\<close>

text \<open>
  A shallow embedding of the request handlers of \<^verbatim>\<open>main5.py\<close>: the SQLite tables
  are lists of rows in rowid order, every handler is a function from the request and
  the state before to the response and the state after, an unhandled Python exception
  is the response \<open>Unhandled\<close>, and the messaging provider is a function that the
  handlers call and whose calls are logged.

  Text is a \<open>string\<close> whose characters stand for the code points below 256.
  What the Python runtime and SQLite do to a value and the source does not spell out
  (parsing a float, hashing, formatting a float, SQLite's conversion of a text to a
  rowid) is a field of the environment record \<open>env\<close>; the theorems hold for every
  environment.
\<close>

subsection \<open>Text primitives of the Python runtime\<close>

text \<open>\<^verbatim>\<open>str.isspace\<close> on the code points below 256.\<close>

definition py_isspace :: "char \<Rightarrow> bool" where
  "py_isspace c =
     (c \<in> set [CHR 0x09, CHR 0x0A, CHR 0x0B, CHR 0x0C, CHR 0x0D, CHR 0x1C, CHR 0x1D,
                CHR 0x1E, CHR 0x1F, CHR 0x20, CHR 0x85, CHR 0xA0])"

text \<open>\<^verbatim>\<open>s.strip()\<close>: leading and trailing whitespace removed.\<close>

definition strip :: "string \<Rightarrow> string" where
  "strip s = rev (dropWhile py_isspace (rev (dropWhile py_isspace s)))"

definition digit_val :: "char \<Rightarrow> nat option" where
  "digit_val c =
     (let n = (of_char c :: nat) in if 48 \<le> n \<and> n \<le> 57 then Some (n - 48) else None)"

definition digit_char :: "nat \<Rightarrow> char" where
  "digit_char n = ''0123456789'' ! (n mod 10)"

text \<open>\<^verbatim>\<open>str(n)\<close> for a non-negative integer.\<close>

fun str_nat :: "nat \<Rightarrow> string" where
  "str_nat n = (if n < 10 then [digit_char n] else str_nat (n div 10) @ [digit_char (n mod 10)])"

text \<open>
  \<^verbatim>\<open>int(s)\<close> in base ten: surrounding whitespace is dropped, one sign is allowed,
  and the digits may be grouped by single underscores. \<open>None\<close> is the
  \<^verbatim>\<open>ValueError\<close>. (The interpreter's limit on the number of digits is left out: a
  text that long is rejected as well.)
\<close>

fun int_digits :: "nat \<Rightarrow> string \<Rightarrow> nat option" where
  "int_digits acc [] = Some acc"
| "int_digits acc [c] =
     (case digit_val c of None \<Rightarrow> None | Some v \<Rightarrow> Some (10 * acc + v))"
| "int_digits acc (c # d # cs) =
     (if c = CHR ''_'' then
        (case digit_val d of None \<Rightarrow> None | Some v \<Rightarrow> int_digits (10 * acc + v) cs)
      else
        (case digit_val c of None \<Rightarrow> None | Some v \<Rightarrow> int_digits (10 * acc + v) (d # cs)))"

definition int_unsigned :: "string \<Rightarrow> nat option" where
  "int_unsigned s =
     (case s of [] \<Rightarrow> None
      | c # cs \<Rightarrow> (case digit_val c of None \<Rightarrow> None | Some v \<Rightarrow> int_digits v cs))"

definition py_int :: "string \<Rightarrow> int option" where
  "py_int s =
     (case strip s of [] \<Rightarrow> None
      | c # cs \<Rightarrow>
          if c = CHR ''-'' then map_option (\<lambda>n. - int n) (int_unsigned cs)
          else if c = CHR ''+'' then map_option int (int_unsigned cs)
          else map_option int (int_unsigned (c # cs)))"

text \<open>\<^verbatim>\<open>str(x)\<close> of a value that may be \<^verbatim>\<open>None\<close>, as an f-string prints it.\<close>

definition py_str :: "string option \<Rightarrow> string" where
  "py_str v = (case v of None \<Rightarrow> ''None'' | Some s \<Rightarrow> s)"

subsection \<open>The clock\<close>

text \<open>
  A \<^verbatim>\<open>datetime\<close> as \<^verbatim>\<open>datetime.now()\<close> returns it, and
  \<^verbatim>\<open>strftime("%Y-%m-%d %H:%M:%S")\<close>, which prints the fields down to the second
  and drops the microseconds (years of four digits).
\<close>

record datetime =
  dt_year :: nat
  dt_month :: nat
  dt_day :: nat
  dt_hour :: nat
  dt_minute :: nat
  dt_second :: nat
  dt_microsecond :: nat

definition pad2 :: "nat \<Rightarrow> string" where
  "pad2 n = [digit_char (n div 10), digit_char n]"

definition pad4 :: "nat \<Rightarrow> string" where
  "pad4 n = [digit_char (n div 1000), digit_char (n div 100), digit_char (n div 10), digit_char n]"

definition strftime_seconds :: "datetime \<Rightarrow> string" where
  "strftime_seconds d =
     pad4 (dt_year d) @ ''-'' @ pad2 (dt_month d) @ ''-'' @ pad2 (dt_day d) @ '' '' @
     pad2 (dt_hour d) @ '':'' @ pad2 (dt_minute d) @ '':'' @ pad2 (dt_second d)"

subsection \<open>The tables\<close>

text \<open>
  One record per table of \<^verbatim>\<open>init_db\<close>; \<open>'f\<close> is the type of Python floats. A
  column is an \<open>option\<close> where some handler or a schema migration can leave it
  \<^verbatim>\<open>NULL\<close>.
\<close>

record user =
  user_id :: int
  username :: string
  password_hash :: string
  role :: string
  contact :: "string option"

record 'f incident =
  inc_id :: int
  inc_type :: "string option"
  severity :: int
  lat :: "'f option"
  lng :: "'f option"
  inc_status :: string
  reported_at :: string

record 'f volunteer =
  vol_id :: int
  vol_name :: string
  phone :: "string option"
  vol_lat :: "'f option"
  vol_lng :: "'f option"
  available :: int

record resource =
  res_id :: int
  res_type :: "string option"
  qty :: "string option"
  location :: "string option"

record 'f facility =
  fac_id :: int
  fac_name :: string
  fac_lat :: 'f
  fac_lng :: 'f
  capacity :: int

record task =
  task_id :: int
  incident_id :: "int option"
  volunteer_id :: "int option"
  resource_id :: "int option"
  task_status :: "string option"
  created_at :: string

record 'f store =
  users :: "user list"
  incidents :: "'f incident list"
  volunteers :: "'f volunteer list"
  resources :: "resource list"
  hospitals :: "'f facility list"
  shelters :: "'f facility list"
  tasks :: "task list"

text \<open>
  The rowid SQLite gives a row inserted without one: 1 into an empty table, else one
  more than the largest rowid in use (rowids are taken to stay below \<open>2^63 - 1\<close>).
\<close>

definition next_rowid :: "int list \<Rightarrow> int" where
  "next_rowid ids = (case ids of [] \<Rightarrow> 1 | x # xs \<Rightarrow> fold max xs x + 1)"

subsection \<open>Requests, responses, the environment\<close>

datatype http_method = GET | POST

datatype exn = TypeError | ValueError | OverflowError

text \<open>
  What a view returns: a call of \<^verbatim>\<open>render_template_string\<close> (the template and the
  \<^verbatim>\<open>message_sent\<close> pair it is given), a redirect to an endpoint, \<^verbatim>\<open>abort(code)\<close>,
  or an exception that no handler catches.
\<close>

datatype response =
  Render string "(string \<times> string) option"
  | Redirect string
  | Abort nat
  | Unhandled exn

record request =
  req_method :: http_method
  req_form :: "string \<Rightarrow> string option"
  req_now :: datetime

text \<open>\<^verbatim>\<open>request.form.get(key, "")\<close>.\<close>

definition form_get :: "request \<Rightarrow> string \<Rightarrow> string" where
  "form_get req k = (case req_form req k of None \<Rightarrow> [] | Some v \<Rightarrow> v)"

text \<open>
  \<^verbatim>\<open>session["user"]\<close>, which \<^verbatim>\<open>login\<close> fills from the row of the users table (its
  id, username, role and contact); \<open>None\<close> when nobody is logged in.
\<close>

record session_user =
  sess_id :: int
  sess_username :: string
  sess_role :: string
  sess_contact :: "string option"

type_synonym session = "session_user option"

text \<open>One call of the provider's \<^verbatim>\<open>messages.create(body, from_, to)\<close>.\<close>

record sms =
  sms_body :: string
  sms_from :: string
  sms_to :: string

text \<open>
  The environment. \<open>twilio_client\<close> is \<open>None\<close> when no client was initialised, else
  the provider: given the calls made so far and a new one, it answers \<open>Inr sid\<close> or
  raises (\<open>Inl\<close> the exception's text). \<open>py_float\<close> is \<^verbatim>\<open>float(s)\<close> (\<open>None\<close> the
  \<^verbatim>\<open>ValueError\<close>), \<open>sqlite_real\<close> the value a REAL column holds for a bound float
  (\<^verbatim>\<open>NULL\<close> for a NaN), \<open>format_4f\<close> the format \<^verbatim>\<open>.4f\<close>, \<open>sqlite_integer\<close> the
  integer SQLite reads a bound text as when it meets an INTEGER column (\<open>None\<close> when
  the text is no integer, so that it equals no rowid).
\<close>

record 'f env =
  twilio_client :: "(sms list \<Rightarrow> sms \<Rightarrow> string + string) option"
  TWILIO_WHATSAPP_FROM :: string
  TWILIO_SMS_FROM :: string
  py_float :: "string \<Rightarrow> 'f option"
  sqlite_real :: "'f \<Rightarrow> 'f option"
  format_4f :: "'f \<Rightarrow> string"
  sqlite_integer :: "string \<Rightarrow> int option"
  sha256_hexdigest :: "string \<Rightarrow> string"

text \<open>The state a view runs on: the database and the log of provider calls.\<close>

record 'f world =
  db :: "'f store"
  calls :: "sms list"

subsection \<open>Helpers and access control\<close>

definition logged_in :: "session \<Rightarrow> bool" where
  "logged_in sess = (sess \<noteq> None)"

definition send_sms_alert ::
  "'f env \<Rightarrow> sms list \<Rightarrow> string \<Rightarrow> string \<Rightarrow> bool \<Rightarrow> (bool \<times> string) \<times> sms list" where
  "send_sms_alert env made phone_number message use_whatsapp =
     (case twilio_client env of
        None \<Rightarrow> ((False, ''Twilio not configured''), made)
      | Some create \<Rightarrow>
          let phone_number' =
                (if use_whatsapp \<and> take 9 phone_number \<noteq> ''whatsapp:''
                 then ''whatsapp:'' @ phone_number else phone_number);
              from_number = (if use_whatsapp then TWILIO_WHATSAPP_FROM env else TWILIO_SMS_FROM env)
          in if from_number = [] then ((False, ''No sender number configured''), made)
             else
               let m = \<lparr>sms_body = message, sms_from = from_number, sms_to = phone_number'\<rparr>;
                   alert_type = (if use_whatsapp then ''WhatsApp'' else ''SMS'')
               in (case create made m of
                     Inr sid \<Rightarrow> ((True, alert_type @ '' sent successfully''), made @ [m])
                   | Inl e \<Rightarrow> ((False, ''Error sending alert: '' @ e), made @ [m])))"

text \<open>
  The decorators. A view is \<^verbatim>\<open>login_required(roles_required(roles)(f))\<close>; the
  wrapped function receives the session's user.
\<close>

definition login_required ::
  "(session \<Rightarrow> 'st \<Rightarrow> response \<times> 'st) \<Rightarrow> session \<Rightarrow> 'st \<Rightarrow> response \<times> 'st" where
  "login_required f sess st = (if \<not> logged_in sess then (Redirect ''login'', st) else f sess st)"

definition roles_required ::
  "string list \<Rightarrow> (session_user \<Rightarrow> 'st \<Rightarrow> response \<times> 'st) \<Rightarrow> session \<Rightarrow> 'st \<Rightarrow> response \<times> 'st" where
  "roles_required roles f sess st =
     (case sess of
        None \<Rightarrow> (Abort 403, st)
      | Some u \<Rightarrow> if sess_role u \<notin> set roles then (Abort 403, st) else f u st)"

subsection \<open>Registration\<close>

text \<open>
  \<^verbatim>\<open>register\<close>. The INSERT raises \<^verbatim>\<open>IntegrityError\<close> exactly when a row holds the
  same username (the column is UNIQUE).
\<close>

definition register :: "'f env \<Rightarrow> request \<Rightarrow> 'f store \<Rightarrow> response \<times> 'f store" where
  "register env req s =
     (if req_method req = POST then
        let username' = strip (form_get req ''username'');
            password = strip (form_get req ''password'');
            role' = strip (form_get req ''role'');
            contact' = strip (form_get req ''contact'')
        in if username' = [] \<or> password = [] \<or> role' = [] then
             (Render ''register'' (Some (''error'', ''All fields except contact are required'')), s)
           else if username' \<in> set (map username (users s)) then
             (Render ''register'' (Some (''error'', ''Username already exists'')), s)
           else
             (Redirect ''login'',
              s\<lparr>users := users s @
                   [\<lparr>user_id = next_rowid (map user_id (users s)), username = username',
                     password_hash = sha256_hexdigest env password, role = role',
                     contact = Some contact'\<rparr>]\<rparr>)
      else (Render ''register'' None, s))"

text \<open>The users \<^verbatim>\<open>init_db\<close> seeds into an empty table.\<close>

definition seed_users :: "'f env \<Rightarrow> user list" where
  "seed_users env =
     [\<lparr>user_id = 1, username = ''admin'', password_hash = sha256_hexdigest env ''admin123'',
       role = ''admin'', contact = Some ''+1234567890''\<rparr>,
      \<lparr>user_id = 2, username = ''reporter1'', password_hash = sha256_hexdigest env ''reporter123'',
       role = ''reporter'', contact = Some ''+1234567891''\<rparr>,
      \<lparr>user_id = 3, username = ''volunteer1'', password_hash = sha256_hexdigest env ''volunteer123'',
       role = ''volunteer'', contact = Some ''+1234567892''\<rparr>,
      \<lparr>user_id = 4, username = ''viewer1'', password_hash = sha256_hexdigest env ''viewer123'',
       role = ''viewer'', contact = Some ''''\<rparr>,
      \<lparr>user_id = 5, username = ''coordinator1'', password_hash = sha256_hexdigest env ''coord123'',
       role = ''coordinator'', contact = Some ''+1234567893''\<rparr>]"

subsection \<open>Reporting an incident\<close>

text \<open>
  \<^verbatim>\<open>report_incident\<close>. \<^verbatim>\<open>int\<close> and \<^verbatim>\<open>float\<close> raise on a missing field
  (\<^verbatim>\<open>TypeError\<close>) and on a malformed one (\<^verbatim>\<open>ValueError\<close>); binding an integer
  outside 64 bits raises \<^verbatim>\<open>OverflowError\<close>. Nothing in the view catches them.
\<close>

definition report_incident :: "'f env \<Rightarrow> request \<Rightarrow> 'f store \<Rightarrow> response \<times> 'f store" where
  "report_incident env req s =
     (if req_method req = POST then
        let incident_type = req_form req ''type'' in
        case req_form req ''severity'' of
          None \<Rightarrow> (Unhandled TypeError, s)
        | Some sev_text \<Rightarrow>
        (case py_int sev_text of
          None \<Rightarrow> (Unhandled ValueError, s)
        | Some sev \<Rightarrow>
        (case req_form req ''lat'' of
          None \<Rightarrow> (Unhandled TypeError, s)
        | Some lat_text \<Rightarrow>
        (case py_float env lat_text of
          None \<Rightarrow> (Unhandled ValueError, s)
        | Some lat' \<Rightarrow>
        (case req_form req ''lng'' of
          None \<Rightarrow> (Unhandled TypeError, s)
        | Some lng_text \<Rightarrow>
        (case py_float env lng_text of
          None \<Rightarrow> (Unhandled ValueError, s)
        | Some lng' \<Rightarrow>
            if sev < - (2 ^ 63) \<or> 2 ^ 63 \<le> sev then (Unhandled OverflowError, s)
            else
              (Render ''report_incident'' (Some (''success'', ''Incident reported successfully!'')),
               s\<lparr>incidents := incidents s @
                    [\<lparr>inc_id = next_rowid (map inc_id (incidents s)), inc_type = incident_type,
                      severity = sev, lat = sqlite_real env lat', lng = sqlite_real env lng',
                      inc_status = ''open'',
                      reported_at = strftime_seconds (req_now req)\<rparr>]\<rparr>))))))
      else (Render ''report_incident'' None, s))"

subsection \<open>Assigning a task\<close>

text \<open>\<^verbatim>\<open>SELECT * FROM t WHERE id=?\<close> with a form field bound, then \<^verbatim>\<open>fetchone()\<close>.\<close>

definition bound_id :: "'f env \<Rightarrow> string option \<Rightarrow> int option" where
  "bound_id env v = (case v of None \<Rightarrow> None | Some t \<Rightarrow> sqlite_integer env t)"

definition fetch_incident :: "'f store \<Rightarrow> int option \<Rightarrow> 'f incident option" where
  "fetch_incident s i = (case i of None \<Rightarrow> None | Some k \<Rightarrow> find (\<lambda>r. inc_id r = k) (incidents s))"

definition fetch_volunteer :: "'f store \<Rightarrow> int option \<Rightarrow> 'f volunteer option" where
  "fetch_volunteer s i = (case i of None \<Rightarrow> None | Some k \<Rightarrow> find (\<lambda>r. vol_id r = k) (volunteers s))"

definition fetch_task :: "'f store \<Rightarrow> int option \<Rightarrow> task option" where
  "fetch_task s i = (case i of None \<Rightarrow> None | Some k \<Rightarrow> find (\<lambda>r. task_id r = k) (tasks s))"

text \<open>\<^verbatim>\<open>UPDATE incidents SET status=? WHERE id=?\<close>.\<close>

definition set_incident_status :: "string \<Rightarrow> int option \<Rightarrow> 'f store \<Rightarrow> 'f store" where
  "set_incident_status st i s =
     s\<lparr>incidents := map (\<lambda>r. if Some (inc_id r) = i then r\<lparr>inc_status := st\<rparr> else r) (incidents s)\<rparr>"

text \<open>
  \<^verbatim>\<open>assign_tasks\<close>. The two writes are committed before the alert is built; an
  exception after the commit (the format \<^verbatim>\<open>.4f\<close> of a \<^verbatim>\<open>NULL\<close> coordinate) is
  caught, and the rollback then finds nothing to undo.
\<close>

definition assign_tasks :: "'f env \<Rightarrow> request \<Rightarrow> 'f world \<Rightarrow> response \<times> 'f world" where
  "assign_tasks env req w =
     (if req_method req = POST then
        let s = db w;
            incident_id' = req_form req ''incident_id'';
            volunteer_id' = req_form req ''volunteer_id'';
            incident = fetch_incident s (bound_id env incident_id');
            volunteer = fetch_volunteer s (bound_id env volunteer_id')
        in case (incident, volunteer) of
             (Some inc, Some vol) \<Rightarrow>
               let s1 = s\<lparr>tasks := tasks s @
                            [\<lparr>task_id = next_rowid (map task_id (tasks s)),
                              incident_id = bound_id env incident_id',
                              volunteer_id = bound_id env volunteer_id',
                              resource_id = None, task_status = Some ''assigned'',
                              created_at = strftime_seconds (req_now req)\<rparr>]\<rparr>;
                   s2 = set_incident_status ''in_progress'' (bound_id env incident_id') s1;
                   success = Render ''assign_tasks''
                     (Some (''success'',
                        ''Incident #'' @ py_str incident_id' @ '' assigned to '' @ vol_name vol @ ''.''))
               in (case (twilio_client env, phone vol) of
                     (Some create, Some ph) \<Rightarrow>
                       if ph = [] then (success, w\<lparr>db := s2\<rparr>)
                       else
                         (case (lat inc, lng inc) of
                            (Some la, Some ln) \<Rightarrow>
                              let alert_msg =
                                    ''New Task Assigned! Incident ID: '' @ py_str incident_id' @
                                    ''. Type: '' @ py_str (inc_type inc) @ ''. Location: '' @
                                    format_4f env la @ '', '' @ format_4f env ln @
                                    ''. Please check the app for details.''
                              in (success,
                                  w\<lparr>db := s2,
                                    calls := snd (send_sms_alert env (calls w) ph alert_msg True)\<rparr>)
                          | _ \<Rightarrow>
                              (Render ''assign_tasks''
                                 (Some (''error'',
                                    ''Failed to assign task: unsupported format string passed to NoneType.__format__'')),
                               w\<lparr>db := s2\<rparr>))
                   | _ \<Rightarrow> (success, w\<lparr>db := s2\<rparr>))
           | _ \<Rightarrow>
               (Render ''assign_tasks'' (Some (''error'', ''Incident or Volunteer not found.'')), w)
      else (Render ''assign_tasks'' None, w))"

subsection \<open>A volunteer's tasks\<close>

definition volunteer_tasks :: "session_user \<Rightarrow> 'f store \<Rightarrow> response \<times> 'f store" where
  "volunteer_tasks u s = (Render ''volunteer_tasks'' None, s)"

text \<open>
  \<^verbatim>\<open>update_task_status\<close>. The UPDATE of the task is committed first;
  \<^verbatim>\<open>cur.fetchone()[0]\<close> raises \<^verbatim>\<open>TypeError\<close> when no task has the id.
\<close>

definition update_task_status ::
  "'f env \<Rightarrow> session_user \<Rightarrow> request \<Rightarrow> 'f store \<Rightarrow> response \<times> 'f store" where
  "update_task_status env u req s =
     (let tid = bound_id env (req_form req ''task_id'');
          status = req_form req ''status'';
          s1 = s\<lparr>tasks := map (\<lambda>t. if Some (task_id t) = tid \<and> volunteer_id t = Some (sess_id u)
                                     then t\<lparr>task_status := status\<rparr> else t) (tasks s)\<rparr>
      in case fetch_task s1 tid of
           None \<Rightarrow> (Unhandled TypeError, s1)
         | Some t \<Rightarrow>
             (Redirect ''volunteer_tasks'',
              if status = Some ''closed'' then set_incident_status ''closed'' (incident_id t) s1
              else if status = Some ''in_progress'' then set_incident_status ''in_progress'' (incident_id t) s1
              else if status = Some ''open'' then set_incident_status ''open'' (incident_id t) s1
              else s1))"

subsection \<open>Alerts\<close>

text \<open>
  The rows of \<^verbatim>\<open>SELECT phone FROM volunteers WHERE phone IS NOT NULL AND phone != ''\<close>
  and of the same query on the users' contacts.
\<close>

definition volunteer_phones :: "'f store \<Rightarrow> string list" where
  "volunteer_phones s =
     concat (map (\<lambda>v. case phone v of None \<Rightarrow> [] | Some p \<Rightarrow> if p = [] then [] else [p])
               (volunteers s))"

definition user_contacts :: "'f store \<Rightarrow> string list" where
  "user_contacts s =
     concat (map (\<lambda>u. case contact u of None \<Rightarrow> [] | Some p \<Rightarrow> if p = [] then [] else [p])
               (users s))"

text \<open>
  The loop of a broadcast: one \<^verbatim>\<open>send_sms_alert\<close> per row, counting successes
  and failures; the third component is the log of provider calls.
\<close>

fun send_to_all ::
  "'f env \<Rightarrow> string \<Rightarrow> bool \<Rightarrow> string list \<Rightarrow> nat \<times> nat \<times> sms list \<Rightarrow> nat \<times> nat \<times> sms list" where
  "send_to_all env message use_whatsapp [] acc = acc"
| "send_to_all env message use_whatsapp (p # ps) (sent_count, failed_count, made) =
     (case send_sms_alert env made p message use_whatsapp of
        ((success, _), made') \<Rightarrow>
          send_to_all env message use_whatsapp ps
            (if success then (sent_count + 1, failed_count, made')
             else (sent_count, failed_count + 1, made')))"

definition alerts :: "'f env \<Rightarrow> request \<Rightarrow> 'f world \<Rightarrow> response \<times> 'f world" where
  "alerts env req w =
     (if req_method req = POST then
        let recipient_type = req_form req ''recipient_type'';
            phone' = strip (form_get req ''phone'');
            message = strip (form_get req ''message'')
        in if message = [] then
             (Render ''alerts'' (Some (''error'', ''Message cannot be empty'')), w)
           else if twilio_client env = None then
             (Render ''alerts''
                (Some (''warning'',
                   ''Twilio not configured. Alert simulation: would have sent to specified recipients.'')),
              w)
           else if recipient_type = Some ''volunteer'' \<and> phone' \<noteq> [] then
             (case send_sms_alert env (calls w) phone' message True of
                ((success, msg), made) \<Rightarrow>
                  (Render ''alerts'' (Some (if success then ''success'' else ''error'', msg)),
                   w\<lparr>calls := made\<rparr>))
           else if recipient_type = Some ''phone_number'' \<and> phone' \<noteq> [] then
             (case send_sms_alert env (calls w) phone' message False of
                ((success, msg), made) \<Rightarrow>
                  (Render ''alerts'' (Some (if success then ''success'' else ''error'', msg)),
                   w\<lparr>calls := made\<rparr>))
           else if recipient_type = Some ''all_volunteers'' then
             (let vols = volunteer_phones (db w)
              in if vols = [] then
                   (Render ''alerts'' (Some (''error'', ''No volunteers with phone numbers found'')), w)
                 else
                   (case send_to_all env message True vols (0, 0, calls w) of
                      (sent_count, failed_count, made) \<Rightarrow>
                        (Render ''alerts''
                           (Some
                              (if 0 < sent_count then
                                 (''success'',
                                  ''Alert sent to '' @ str_nat sent_count @ '' volunteers'' @
                                  (if 0 < failed_count
                                   then '' ('' @ str_nat failed_count @ '' failed)'' else []))
                               else
                                 (''error'',
                                  ''Failed to send alerts to all '' @ str_nat (length vols) @
                                  '' volunteers''))),
                         w\<lparr>calls := made\<rparr>)))
           else if recipient_type = Some ''all_users'' then
             (let us = user_contacts (db w)
              in if us = [] then
                   (Render ''alerts'' (Some (''error'', ''No users with contact numbers found'')), w)
                 else
                   (case send_to_all env message False us (0, 0, calls w) of
                      (sent_count, failed_count, made) \<Rightarrow>
                        (Render ''alerts''
                           (Some
                              (''success'',
                               ''Alert sent to '' @ str_nat sent_count @ '' users'' @
                               (if 0 < failed_count
                                then '' ('' @ str_nat failed_count @ '' failed)'' else []))),
                         w\<lparr>calls := made\<rparr>)))
           else (Render ''alerts'' None, w)
      else (Render ''alerts'' None, w))"

subsection \<open>The remaining views\<close>

text \<open>
  \<^verbatim>\<open>dashboard\<close>, \<^verbatim>\<open>predict\<close> and \<^verbatim>\<open>volunteer_tasks\<close> only read; what they hand
  to their templates besides \<^verbatim>\<open>message_sent\<close> is not modelled.
\<close>

definition dashboard :: "'f store \<Rightarrow> response \<times> 'f store" where
  "dashboard s = (Render ''dashboard'' None, s)"

definition predict :: "'f store \<Rightarrow> response \<times> 'f store" where
  "predict s = (Render ''predict'' None, s)"

definition resources_view :: "request \<Rightarrow> 'f store \<Rightarrow> response \<times> 'f store" where
  "resources_view req s =
     (if req_method req = POST then
        (Render ''resources'' (Some (''success'', ''Resource added successfully!'')),
         s\<lparr>resources := resources s @
              [\<lparr>res_id = next_rowid (map res_id (resources s)), res_type = req_form req ''type'',
                qty = req_form req ''qty'', location = req_form req ''location''\<rparr>]\<rparr>)
      else (Render ''resources'' None, s))"

definition delete_resource :: "int \<Rightarrow> 'f store \<Rightarrow> response \<times> 'f store" where
  "delete_resource rid s =
     (Redirect ''resources'', s\<lparr>resources := filter (\<lambda>r. res_id r \<noteq> rid) (resources s)\<rparr>)"

subsection \<open>The role-gated views\<close>

text \<open>
  Flask's table of view functions for the gated routes: each view is its function under
  \<^verbatim>\<open>@login_required\<close> and \<^verbatim>\<open>@roles_required([...])\<close>, with the role lists of the
  source. \<open>Delete_resource\<close> carries the \<^verbatim>\<open>resource_id\<close> of its URL.
\<close>

datatype endpoint =
  Dashboard | Alerts | Report_incident | Assign_tasks | Volunteer_tasks
  | Update_task_status | Resources | Delete_resource int | Predict

definition on_db :: "('f store \<Rightarrow> response \<times> 'f store) \<Rightarrow> 'f world \<Rightarrow> response \<times> 'f world" where
  "on_db f w = (case f (db w) of (r, s') \<Rightarrow> (r, w\<lparr>db := s'\<rparr>))"

fun view :: "endpoint \<Rightarrow> 'f env \<Rightarrow> request \<Rightarrow> session \<Rightarrow> 'f world \<Rightarrow> response \<times> 'f world" where
  "view Dashboard env req =
     login_required (roles_required [''admin'', ''reporter'', ''coordinator'', ''viewer'']
       (\<lambda>u. on_db dashboard))"
| "view Alerts env req =
     login_required (roles_required [''admin'', ''coordinator''] (\<lambda>u. alerts env req))"
| "view Report_incident env req =
     login_required (roles_required [''admin'', ''reporter'']
       (\<lambda>u. on_db (report_incident env req)))"
| "view Assign_tasks env req =
     login_required (roles_required [''admin'', ''coordinator''] (\<lambda>u. assign_tasks env req))"
| "view Volunteer_tasks env req =
     login_required (roles_required [''volunteer''] (\<lambda>u. on_db (volunteer_tasks u)))"
| "view Update_task_status env req =
     login_required (roles_required [''volunteer'']
       (\<lambda>u. on_db (update_task_status env u req)))"
| "view Resources env req =
     login_required (roles_required [''admin'', ''coordinator'']
       (\<lambda>u. on_db (resources_view req)))"
| "view (Delete_resource rid) env req =
     login_required (roles_required [''admin'', ''coordinator'']
       (\<lambda>u. on_db (delete_resource rid)))"
| "view Predict env req =
     login_required (roles_required [''admin'', ''reporter'', ''viewer''] (\<lambda>u. on_db predict))"

subsection \<open>Notions of the specification\<close>

text \<open>
  The Access Policy table of the specification: the roles it permits on each gated
  route (dashboard; risk map; report; assign, resources and alerts; the volunteer's
  task view and update).
\<close>

fun spec_permitted_roles :: "endpoint \<Rightarrow> string list" where
  "spec_permitted_roles Dashboard = [''admin'', ''reporter'', ''coordinator'', ''viewer'']"
| "spec_permitted_roles Predict = [''admin'', ''reporter'', ''viewer'']"
| "spec_permitted_roles Report_incident = [''admin'', ''reporter'']"
| "spec_permitted_roles Assign_tasks = [''admin'', ''coordinator'']"
| "spec_permitted_roles Resources = [''admin'', ''coordinator'']"
| "spec_permitted_roles (Delete_resource rid) = [''admin'', ''coordinator'']"
| "spec_permitted_roles Alerts = [''admin'', ''coordinator'']"
| "spec_permitted_roles Volunteer_tasks = [''volunteer'']"
| "spec_permitted_roles Update_task_status = [''volunteer'']"

text \<open>The five roles of the specification's data model.\<close>

definition spec_roles :: "string list" where
  "spec_roles = [''admin'', ''coordinator'', ''reporter'', ''volunteer'', ''viewer'']"








subsection \<open>A small installation\<close>

text \<open>
  Concrete data on which the theorems below are instantiated. Floats are whole degrees
  here; the provider refuses one number and accepts every other.
\<close>

definition demo_env :: "int env" where
  "demo_env =
     \<lparr>twilio_client =
        Some (\<lambda>made m. if sms_to m = ''whatsapp:+919000000012'' then Inl ''unreachable'' else Inr ''SM1''),
      TWILIO_WHATSAPP_FROM = ''whatsapp:+14155238886'',
      TWILIO_SMS_FROM = [],
      py_float = py_int,
      sqlite_real = Some,
      format_4f = (\<lambda>x. str_nat (nat x) @ ''.0000''),
      sqlite_integer = py_int,
      sha256_hexdigest = (\<lambda>p. ''sha256:'' @ p)\<rparr>"

definition demo_store :: "int store" where
  "demo_store =
     \<lparr>users = seed_users demo_env,
      incidents =
        [\<lparr>inc_id = 1, inc_type = Some ''Debris Removal'', severity = 4, lat = Some 28, lng = Some 77,
          inc_status = ''open'', reported_at = ''2025-08-26 09:00:00''\<rparr>,
         \<lparr>inc_id = 3, inc_type = Some ''Shelter Request'', severity = 3, lat = Some 30, lng = Some 78,
          inc_status = ''closed'', reported_at = ''2025-08-26 09:00:00''\<rparr>],
      volunteers =
        [\<lparr>vol_id = 1, vol_name = ''Aarav'', phone = Some ''+919000000011'', vol_lat = Some 28,
          vol_lng = Some 77, available = 1\<rparr>,
         \<lparr>vol_id = 2, vol_name = ''Diya'', phone = Some ''+919000000012'', vol_lat = Some 26,
          vol_lng = Some 80, available = 1\<rparr>,
         \<lparr>vol_id = 3, vol_name = ''Kabir'', phone = None, vol_lat = Some 30,
          vol_lng = Some 78, available = 1\<rparr>,
         \<lparr>vol_id = 4, vol_name = ''Meera'', phone = Some ''+919000000014'', vol_lat = Some 19,
          vol_lng = Some 72, available = 1\<rparr>],
      resources = [],
      hospitals = [],
      shelters = [],
      tasks =
        [\<lparr>task_id = 1, incident_id = Some 1, volunteer_id = Some 3, resource_id = None,
          task_status = Some ''assigned'', created_at = ''2025-08-26 09:30:00''\<rparr>,
         \<lparr>task_id = 2, incident_id = Some 3, volunteer_id = Some 1, resource_id = None,
          task_status = Some ''closed'', created_at = ''2025-08-26 09:40:00''\<rparr>]\<rparr>"

definition demo_world :: "int world" where
  "demo_world = \<lparr>db = demo_store, calls = []\<rparr>"

definition demo_now :: datetime where
  "demo_now =
     \<lparr>dt_year = 2025, dt_month = 8, dt_day = 26, dt_hour = 10, dt_minute = 30, dt_second = 0,
      dt_microsecond = 600000\<rparr>"


definition demo_post :: "(string \<times> string) list \<Rightarrow> request" where
  "demo_post kvs = \<lparr>req_method = POST, req_form = map_of kvs, req_now = demo_now\<rparr>"

definition demo_user :: "string \<Rightarrow> session_user" where
  "demo_user name =
     (case find (\<lambda>r. username r = name) (seed_users demo_env) of
        Some row \<Rightarrow>
          \<lparr>sess_id = user_id row, sess_username = username row, sess_role = role row,
           sess_contact = contact row\<rparr>
      | None \<Rightarrow> \<lparr>sess_id = 0, sess_username = name, sess_role = [], sess_contact = None\<rparr>)"

section \<open>Access control\<close>

text \<open>
  Claim C4. On every role-gated view, a logged-in caller whose role is outside the set
  the specification permits for that view gets \<^verbatim>\<open>abort(403)\<close>, and the database and
  the log of provider calls are as before.
\<close>

theorem gated_view_rejects_other_roles:
  assumes "sess = Some u" and "sess_role u \<notin> set (spec_permitted_roles ep)"
  shows "view ep env req sess w = (Abort 403, w)"
  using assms by (cases ep) (simp_all add: login_required_def roles_required_def logged_in_def)

theorem gated_view_rejects_other_roles_witness:
  "sess_role (demo_user ''viewer1'') = ''viewer'' \<and>
   ''viewer'' \<notin> set (spec_permitted_roles Assign_tasks) \<and>
   view Assign_tasks demo_env
     (demo_post [(''incident_id'', ''1''), (''volunteer_id'', ''2'')])
     (Some (demo_user ''viewer1'')) demo_world = (Abort 403, demo_world)"
  using gated_view_rejects_other_roles
    [of "Some (demo_user ''viewer1'')" "demo_user ''viewer1''" Assign_tasks demo_env
        "demo_post [(''incident_id'', ''1''), (''volunteer_id'', ''2'')]" demo_world]
  by (simp add: demo_user_def seed_users_def)

text \<open>Conversely, a caller whose role is permitted reaches the view function.\<close>

lemma gated_view_runs_for_permitted_role:
  assumes "sess_role u \<in> set (spec_permitted_roles ep)"
  shows "view ep env req (Some u) w =
           (case ep of
              Dashboard \<Rightarrow> on_db dashboard w
            | Alerts \<Rightarrow> alerts env req w
            | Report_incident \<Rightarrow> on_db (report_incident env req) w
            | Assign_tasks \<Rightarrow> assign_tasks env req w
            | Volunteer_tasks \<Rightarrow> on_db (volunteer_tasks u) w
            | Update_task_status \<Rightarrow> on_db (update_task_status env u req) w
            | Resources \<Rightarrow> on_db (resources_view req) w
            | Delete_resource rid \<Rightarrow> on_db (delete_resource rid) w
            | Predict \<Rightarrow> on_db predict w)"
  using assms by (cases ep) (auto simp: login_required_def roles_required_def logged_in_def)

section \<open>Facts about the tables\<close>

lemma fold_max_upper: "y \<in> set xs \<or> y = x \<Longrightarrow> (y::int) \<le> fold max xs x"
proof -
  assume "y \<in> set xs \<or> y = x"
  then have "y \<in> set (x # xs)" by auto
  then have "y \<le> Max (set (x # xs))" by (intro Max_ge) auto
  then show ?thesis by (simp only: Max.set_eq_fold)
qed

lemma next_rowid_fresh: "next_rowid ids \<notin> set ids"
proof
  assume a: "next_rowid ids \<in> set ids"
  then obtain x xs where ids: "ids = x # xs" by (cases ids) auto
  from a ids have "fold max xs x + 1 \<le> fold max xs x"
    using fold_max_upper [of "fold max xs x + 1" xs x] by (auto simp: next_rowid_def)
  then show False by simp
qed

lemma find_map_same_key:
  assumes "find P xs = Some a" and "\<And>r. P (g r) = P r"
  shows "find P (map g xs) = Some (g a)"
  using assms(1) by (induction xs) (auto simp: assms(2) split: if_splits)

lemma find_key_eq: "find (\<lambda>r. key r = k) xs = Some a \<Longrightarrow> key a = k \<and> a \<in> set xs"
  by (induction xs) (auto split: if_splits)

lemma fetch_incident_SomeD:
  "fetch_incident s i = Some a \<Longrightarrow> i = Some (inc_id a) \<and> a \<in> set (incidents s)"
  by (auto simp: fetch_incident_def split: option.splits dest: find_key_eq)

lemma fetch_volunteer_SomeD:
  "fetch_volunteer s i = Some a \<Longrightarrow> i = Some (vol_id a) \<and> a \<in> set (volunteers s)"
  by (auto simp: fetch_volunteer_def split: option.splits dest: find_key_eq)

lemma fetch_task_SomeD:
  "fetch_task s i = Some a \<Longrightarrow> i = Some (task_id a) \<and> a \<in> set (tasks s)"
  by (auto simp: fetch_task_def split: option.splits dest: find_key_eq)

lemma fetch_incident_set_status:
  assumes "fetch_incident s i = Some a"
  shows "fetch_incident (set_incident_status st i s) i = Some (a\<lparr>inc_status := st\<rparr>)"
proof -
  from assms have i: "i = Some (inc_id a)" by (simp add: fetch_incident_SomeD)
  from assms i have f: "find (\<lambda>r. inc_id r = inc_id a) (incidents s) = Some a"
    by (simp add: fetch_incident_def)
  have "find (\<lambda>r. inc_id r = inc_id a)
          (map (\<lambda>r. if Some (inc_id r) = i then r\<lparr>inc_status := st\<rparr> else r) (incidents s)) =
        Some (if Some (inc_id a) = i then a\<lparr>inc_status := st\<rparr> else a)"
    by (rule find_map_same_key [OF f]) simp
  with i show ?thesis by (simp add: fetch_incident_def set_incident_status_def)
qed

lemma assign_tasks_db:
  assumes "req_method req = POST"
    and "fetch_incident (db w) (bound_id env (req_form req ''incident_id'')) = Some inc"
    and "fetch_volunteer (db w) (bound_id env (req_form req ''volunteer_id'')) = Some vol"
  shows "db (snd (assign_tasks env req w)) =
           set_incident_status ''in_progress'' (Some (inc_id inc))
             ((db w)\<lparr>tasks := tasks (db w) @
                [\<lparr>task_id = next_rowid (map task_id (tasks (db w))),
                  incident_id = Some (inc_id inc), volunteer_id = Some (vol_id vol),
                  resource_id = None, task_status = Some ''assigned'',
                  created_at = strftime_seconds (req_now req)\<rparr>]\<rparr>)"
proof -
  from assms(2) have i: "bound_id env (req_form req ''incident_id'') = Some (inc_id inc)"
    by (simp add: fetch_incident_SomeD)
  from assms(3) have v: "bound_id env (req_form req ''volunteer_id'') = Some (vol_id vol)"
    by (simp add: fetch_volunteer_SomeD)
  show ?thesis
    using assms by (simp add: assign_tasks_def Let_def i v split: option.splits prod.splits)
qed

text \<open>The definitions a concrete instance is evaluated with.\<close>

lemmas demo_eval =
  demo_world_def demo_store_def demo_env_def demo_post_def demo_user_def seed_users_def
  bound_id_def fetch_incident_def fetch_volunteer_def fetch_task_def
  py_int_def strip_def py_isspace_def int_unsigned_def digit_val_def

section \<open>Assignment\<close>

text \<open>
  Claim C1. On a POST to \<^verbatim>\<open>/assign_tasks\<close> whose \<^verbatim>\<open>incident_id\<close> and
  \<^verbatim>\<open>volunteer_id\<close> select existing rows, \<^verbatim>\<open>assign_tasks\<close> appends exactly one task
  row, with a fresh id, status \<^verbatim>\<open>assigned\<close> and the ids of that incident and that
  volunteer, and the incident's status becomes \<^verbatim>\<open>in_progress\<close> whatever it was; the
  other incidents and the other tables are as before.
\<close>

theorem assign_tasks_creates_task:
  assumes "req_method req = POST"
    and "fetch_incident (db w) (bound_id env (req_form req ''incident_id'')) = Some inc"
    and "fetch_volunteer (db w) (bound_id env (req_form req ''volunteer_id'')) = Some vol"
  shows "(\<exists>t. tasks (db (snd (assign_tasks env req w))) = tasks (db w) @ [t] \<and>
              task_id t \<notin> set (map task_id (tasks (db w))) \<and>
              task_status t = Some ''assigned'' \<and>
              incident_id t = Some (inc_id inc) \<and> volunteer_id t = Some (vol_id vol)) \<and>
         fetch_incident (db (snd (assign_tasks env req w))) (Some (inc_id inc)) =
           Some (inc\<lparr>inc_status := ''in_progress''\<rparr>) \<and>
         incidents (db (snd (assign_tasks env req w))) =
           map (\<lambda>r. if inc_id r = inc_id inc then r\<lparr>inc_status := ''in_progress''\<rparr> else r)
             (incidents (db w)) \<and>
         users (db (snd (assign_tasks env req w))) = users (db w) \<and>
         volunteers (db (snd (assign_tasks env req w))) = volunteers (db w) \<and>
         resources (db (snd (assign_tasks env req w))) = resources (db w)"
proof -
  let ?t = "\<lparr>task_id = next_rowid (map task_id (tasks (db w))),
              incident_id = Some (inc_id inc), volunteer_id = Some (vol_id vol),
              resource_id = None, task_status = Some ''assigned'',
              created_at = strftime_seconds (req_now req)\<rparr>"
  let ?s1 = "(db w)\<lparr>tasks := tasks (db w) @ [?t]\<rparr>"
  have d: "db (snd (assign_tasks env req w)) =
             set_incident_status ''in_progress'' (Some (inc_id inc)) ?s1"
    by (rule assign_tasks_db [OF assms])
  have "fetch_incident ?s1 (Some (inc_id inc)) = Some inc"
    using assms(2) fetch_incident_SomeD [OF assms(2)] by (simp add: fetch_incident_def)
  then have f: "fetch_incident (set_incident_status ''in_progress'' (Some (inc_id inc)) ?s1)
                  (Some (inc_id inc)) = Some (inc\<lparr>inc_status := ''in_progress''\<rparr>)"
    by (rule fetch_incident_set_status)
  have t: "tasks (db (snd (assign_tasks env req w))) = tasks (db w) @ [?t]"
    by (simp add: d set_incident_status_def)
  have fresh: "task_id ?t \<notin> set (map task_id (tasks (db w)))"
    using next_rowid_fresh [of "map task_id (tasks (db w))"] by simp
  have ex: "\<exists>t. tasks (db (snd (assign_tasks env req w))) = tasks (db w) @ [t] \<and>
              task_id t \<notin> set (map task_id (tasks (db w))) \<and>
              task_status t = Some ''assigned'' \<and>
              incident_id t = Some (inc_id inc) \<and> volunteer_id t = Some (vol_id vol)"
    using t fresh by (intro exI [of _ ?t]) simp
  show ?thesis
    using ex f by (simp add: d set_incident_status_def)
qed

theorem assign_tasks_creates_task_witness:
  "req_method (demo_post [(''incident_id'', ''3''), (''volunteer_id'', ''2'')]) = POST \<and>
   fetch_incident (db demo_world)
     (bound_id demo_env (req_form (demo_post [(''incident_id'', ''3''), (''volunteer_id'', ''2'')]) ''incident_id''))
     = Some (incidents demo_store ! 1) \<and>
   fetch_volunteer (db demo_world)
     (bound_id demo_env (req_form (demo_post [(''incident_id'', ''3''), (''volunteer_id'', ''2'')]) ''volunteer_id''))
     = Some (volunteers demo_store ! 1) \<and>
   inc_status (incidents demo_store ! 1) = ''closed'' \<and>
   fetch_incident
     (db (snd (assign_tasks demo_env (demo_post [(''incident_id'', ''3''), (''volunteer_id'', ''2'')]) demo_world)))
     (Some 3) = Some ((incidents demo_store ! 1)\<lparr>inc_status := ''in_progress''\<rparr>) \<and>
   (\<exists>t. tasks (db (snd (assign_tasks demo_env (demo_post [(''incident_id'', ''3''), (''volunteer_id'', ''2'')]) demo_world)))
          = tasks demo_store @ [t] \<and>
        task_status t = Some ''assigned'' \<and> incident_id t = Some 3 \<and> volunteer_id t = Some 2)"
proof -
  let ?req = "demo_post [(''incident_id'', ''3''), (''volunteer_id'', ''2'')]"
  have h1: "req_method ?req = POST" by (simp add: demo_post_def)
  have h2: "fetch_incident (db demo_world) (bound_id demo_env (req_form ?req ''incident_id''))
              = Some (incidents demo_store ! 1)"
    by (simp add: demo_eval)
  have h3: "fetch_volunteer (db demo_world) (bound_id demo_env (req_form ?req ''volunteer_id''))
              = Some (volunteers demo_store ! 1)"
    by (simp add: demo_eval)
  have i: "inc_id (incidents demo_store ! 1) = 3" "vol_id (volunteers demo_store ! 1) = 2"
    "inc_status (incidents demo_store ! 1) = ''closed''" "db demo_world = demo_store"
    by (simp_all add: demo_store_def demo_world_def)
  from assign_tasks_creates_task [OF h1 h2 h3] h1 h2 h3 show ?thesis
    unfolding i by blast
qed



section \<open>A volunteer's status update\<close>

lemma view_update_task_status_volunteer:
  "sess_role u = ''volunteer'' \<Longrightarrow>
   view Update_task_status env req (Some u) w = on_db (update_task_status env u req) w"
  by (simp add: login_required_def roles_required_def logged_in_def)

lemma fetch_task_set_incident_status [simp]:
  "fetch_task (set_incident_status st i s) k = fetch_task s k"
  by (cases k) (simp_all add: fetch_task_def set_incident_status_def)

lemma fetch_incident_tasks_update [simp]:
  "fetch_incident (s\<lparr>tasks := ts\<rparr>) k = fetch_incident s k"
  by (cases k) (simp_all add: fetch_incident_def)

lemma fetch_task_after_update:
  assumes "fetch_task s tid = Some t"
  shows "fetch_task
           (s\<lparr>tasks := map (\<lambda>r. if Some (task_id r) = tid \<and> volunteer_id r = Some uid
                                 then r\<lparr>task_status := status\<rparr> else r) (tasks s)\<rparr>) tid =
         Some (if volunteer_id t = Some uid then t\<lparr>task_status := status\<rparr> else t)"
proof -
  from assms have i: "tid = Some (task_id t)" by (simp add: fetch_task_SomeD)
  from assms i have f: "find (\<lambda>r. task_id r = task_id t) (tasks s) = Some t"
    by (simp add: fetch_task_def)
  have "find (\<lambda>r. task_id r = task_id t)
          (map (\<lambda>r. if Some (task_id r) = tid \<and> volunteer_id r = Some uid
                     then r\<lparr>task_status := status\<rparr> else r) (tasks s)) =
        Some (if Some (task_id t) = tid \<and> volunteer_id t = Some uid
              then t\<lparr>task_status := status\<rparr> else t)"
    by (rule find_map_same_key [OF f]) simp
  with i show ?thesis by (simp add: fetch_task_def)
qed

lemma tasks_unchanged_when_foreign:
  assumes "fetch_task s tid = Some t" and "volunteer_id t \<noteq> Some uid"
    and "distinct (map task_id (tasks s))"
  shows "map (\<lambda>r. if Some (task_id r) = tid \<and> volunteer_id r = Some uid
                   then r\<lparr>task_status := status\<rparr> else r) (tasks s) = tasks s"
proof -
  from assms(1) have i: "tid = Some (task_id t)" and m: "t \<in> set (tasks s)"
    by (simp_all add: fetch_task_SomeD)
  have "r = t" if "r \<in> set (tasks s)" and "task_id r = task_id t" for r
    using that m assms(3) by (meson distinct_map inj_onD)
  then have "\<And>r. r \<in> set (tasks s) \<Longrightarrow>
      (if Some (task_id r) = tid \<and> volunteer_id r = Some uid then r\<lparr>task_status := status\<rparr> else r) = r"
    using assms(2) i by auto
  then show ?thesis by (simp add: map_idI)
qed

lemma update_task_status_result:
  assumes "fetch_task s (bound_id env (req_form req ''task_id'')) = Some t"
    and "req_form req ''status'' = Some st"
    and "st \<in> set [''closed'', ''in_progress'', ''open'']"
  shows "update_task_status env u req s =
          (Redirect ''volunteer_tasks'',
           set_incident_status st
             (incident_id (if volunteer_id t = Some (sess_id u) then t\<lparr>task_status := Some st\<rparr> else t))
             (s\<lparr>tasks := map (\<lambda>r. if Some (task_id r) = bound_id env (req_form req ''task_id'') \<and>
                                       volunteer_id r = Some (sess_id u)
                                    then r\<lparr>task_status := Some st\<rparr> else r) (tasks s)\<rparr>))"
  using assms(3) fetch_task_after_update [OF assms(1), of "sess_id u" "Some st"]
  by (auto simp: update_task_status_def Let_def assms(2))

text \<open>
  Claim C3. When a logged-in volunteer posts to \<^verbatim>\<open>/update_task_status\<close> the id of a
  task whose \<^verbatim>\<open>volunteer_id\<close> is the session's user id, with a status among
  \<^verbatim>\<open>closed\<close>, \<^verbatim>\<open>in_progress\<close> and \<^verbatim>\<open>open\<close>, the task has that status afterwards
  and so has its parent incident: \<^verbatim>\<open>closed\<close> closes both, \<^verbatim>\<open>open\<close> sets both back
  to open.
\<close>

theorem update_own_task_mirrors_status:
  assumes "sess_role u = ''volunteer''"
    and "fetch_task (db w) (bound_id env (req_form req ''task_id'')) = Some t"
    and "volunteer_id t = Some (sess_id u)"
    and "fetch_incident (db w) (incident_id t) = Some i"
    and "req_form req ''status'' = Some st"
    and "st \<in> set [''closed'', ''in_progress'', ''open'']"
  shows "\<exists>s'. view Update_task_status env req (Some u) w = (Redirect ''volunteer_tasks'', w\<lparr>db := s'\<rparr>) \<and>
              fetch_task s' (bound_id env (req_form req ''task_id'')) = Some (t\<lparr>task_status := Some st\<rparr>) \<and>
              fetch_incident s' (incident_id t) = Some (i\<lparr>inc_status := st\<rparr>)"
proof -
  let ?tid = "bound_id env (req_form req ''task_id'')"
  let ?s1 = "(db w)\<lparr>tasks := map (\<lambda>r. if Some (task_id r) = ?tid \<and> volunteer_id r = Some (sess_id u)
                                      then r\<lparr>task_status := Some st\<rparr> else r) (tasks (db w))\<rparr>"
  let ?s' = "set_incident_status st (incident_id t) ?s1"
  have r: "update_task_status env u req (db w) = (Redirect ''volunteer_tasks'', ?s')"
    using update_task_status_result [OF assms(2) assms(5) assms(6), of u] assms(3) by simp
  have v: "view Update_task_status env req (Some u) w = (Redirect ''volunteer_tasks'', w\<lparr>db := ?s'\<rparr>)"
    unfolding view_update_task_status_volunteer [OF assms(1)] by (simp add: on_db_def r)
  have "fetch_task ?s1 ?tid = Some (t\<lparr>task_status := Some st\<rparr>)"
    using fetch_task_after_update [OF assms(2), of "sess_id u" "Some st"] assms(3) by simp
  then have ft: "fetch_task ?s' ?tid = Some (t\<lparr>task_status := Some st\<rparr>)"
    by simp
  have "fetch_incident ?s1 (incident_id t) = Some i"
    using assms(4) by simp
  then have fi: "fetch_incident ?s' (incident_id t) = Some (i\<lparr>inc_status := st\<rparr>)"
    by (rule fetch_incident_set_status)
  from v ft fi show ?thesis by blast
qed

theorem update_own_task_mirrors_status_witness:
  "sess_role (demo_user ''volunteer1'') = ''volunteer'' \<and>
   fetch_task (db demo_world)
     (bound_id demo_env (req_form (demo_post [(''task_id'', ''1''), (''status'', ''closed'')]) ''task_id''))
     = Some (tasks demo_store ! 0) \<and>
   volunteer_id (tasks demo_store ! 0) = Some (sess_id (demo_user ''volunteer1'')) \<and>
   fetch_incident (db demo_world) (incident_id (tasks demo_store ! 0)) = Some (incidents demo_store ! 0) \<and>
   inc_status (incidents demo_store ! 0) = ''open'' \<and>
   req_form (demo_post [(''task_id'', ''1''), (''status'', ''closed'')]) ''status'' = Some ''closed'' \<and>
   (\<exists>s'. view Update_task_status demo_env (demo_post [(''task_id'', ''1''), (''status'', ''closed'')])
            (Some (demo_user ''volunteer1'')) demo_world =
            (Redirect ''volunteer_tasks'', demo_world\<lparr>db := s'\<rparr>) \<and>
         fetch_task s'
           (bound_id demo_env (req_form (demo_post [(''task_id'', ''1''), (''status'', ''closed'')]) ''task_id''))
           = Some ((tasks demo_store ! 0)\<lparr>task_status := Some ''closed''\<rparr>) \<and>
         fetch_incident s' (incident_id (tasks demo_store ! 0))
           = Some ((incidents demo_store ! 0)\<lparr>inc_status := ''closed''\<rparr>))"
proof -
  let ?req = "demo_post [(''task_id'', ''1''), (''status'', ''closed'')]"
  let ?u = "demo_user ''volunteer1''"
  have h1: "sess_role ?u = ''volunteer''" by (simp add: demo_eval)
  have h2: "fetch_task (db demo_world) (bound_id demo_env (req_form ?req ''task_id''))
              = Some (tasks demo_store ! 0)"
    by (simp add: demo_eval)
  have h3: "volunteer_id (tasks demo_store ! 0) = Some (sess_id ?u)" by (simp add: demo_eval)
  have h4: "fetch_incident (db demo_world) (incident_id (tasks demo_store ! 0))
              = Some (incidents demo_store ! 0)"
    by (simp add: demo_eval)
  have h5: "req_form ?req ''status'' = Some ''closed''" by (simp add: demo_eval)
  have h6: "''closed'' \<in> set [''closed'', ''in_progress'', ''open'']" by simp
  have o: "inc_status (incidents demo_store ! 0) = ''open''" by (simp add: demo_eval)
  from update_own_task_mirrors_status [OF h1 h2 h3 h4 h5 h6] h1 h2 h3 h4 h5 o
  show ?thesis by blast
qed

text \<open>
  Claim C5. When a logged-in volunteer posts to \<^verbatim>\<open>/update_task_status\<close> the id of a
  task that exists and whose \<^verbatim>\<open>volunteer_id\<close> is not the session's user id, the task
  row is as before (with ids a primary key, so is the whole task table), and yet the
  parent incident's status is set to the submitted status.
\<close>

theorem update_foreign_task_sets_incident:
  assumes "sess_role u = ''volunteer''"
    and "fetch_task (db w) (bound_id env (req_form req ''task_id'')) = Some t"
    and "volunteer_id t \<noteq> Some (sess_id u)"
    and "fetch_incident (db w) (incident_id t) = Some i"
    and "req_form req ''status'' = Some st"
    and "st \<in> set [''closed'', ''in_progress'', ''open'']"
  shows "\<exists>s'. view Update_task_status env req (Some u) w = (Redirect ''volunteer_tasks'', w\<lparr>db := s'\<rparr>) \<and>
              fetch_task s' (bound_id env (req_form req ''task_id'')) = Some t \<and>
              (distinct (map task_id (tasks (db w))) \<longrightarrow> tasks s' = tasks (db w)) \<and>
              fetch_incident s' (incident_id t) = Some (i\<lparr>inc_status := st\<rparr>)"
proof -
  let ?tid = "bound_id env (req_form req ''task_id'')"
  let ?s1 = "(db w)\<lparr>tasks := map (\<lambda>r. if Some (task_id r) = ?tid \<and> volunteer_id r = Some (sess_id u)
                                      then r\<lparr>task_status := Some st\<rparr> else r) (tasks (db w))\<rparr>"
  let ?s' = "set_incident_status st (incident_id t) ?s1"
  have r: "update_task_status env u req (db w) = (Redirect ''volunteer_tasks'', ?s')"
    using update_task_status_result [OF assms(2) assms(5) assms(6), of u] assms(3) by simp
  have v: "view Update_task_status env req (Some u) w = (Redirect ''volunteer_tasks'', w\<lparr>db := ?s'\<rparr>)"
    unfolding view_update_task_status_volunteer [OF assms(1)] by (simp add: on_db_def r)
  have "fetch_task ?s1 ?tid = Some t"
    using fetch_task_after_update [OF assms(2), of "sess_id u" "Some st"] assms(3) by simp
  then have ft: "fetch_task ?s' ?tid = Some t"
    by simp
  have un: "distinct (map task_id (tasks (db w))) \<longrightarrow> tasks ?s' = tasks (db w)"
    using tasks_unchanged_when_foreign [OF assms(2) assms(3), of "Some st"]
    by (simp add: set_incident_status_def)
  have "fetch_incident ?s1 (incident_id t) = Some i"
    using assms(4) by simp
  then have fi: "fetch_incident ?s' (incident_id t) = Some (i\<lparr>inc_status := st\<rparr>)"
    by (rule fetch_incident_set_status)
  from v ft un fi show ?thesis by blast
qed

theorem update_foreign_task_sets_incident_witness:
  "sess_role (demo_user ''volunteer1'') = ''volunteer'' \<and>
   fetch_task (db demo_world)
     (bound_id demo_env (req_form (demo_post [(''task_id'', ''2''), (''status'', ''open'')]) ''task_id''))
     = Some (tasks demo_store ! 1) \<and>
   volunteer_id (tasks demo_store ! 1) \<noteq> Some (sess_id (demo_user ''volunteer1'')) \<and>
   fetch_incident (db demo_world) (incident_id (tasks demo_store ! 1)) = Some (incidents demo_store ! 1) \<and>
   inc_status (incidents demo_store ! 1) = ''closed'' \<and>
   req_form (demo_post [(''task_id'', ''2''), (''status'', ''open'')]) ''status'' = Some ''open'' \<and>
   distinct (map task_id (tasks (db demo_world))) \<and>
   (\<exists>s'. view Update_task_status demo_env (demo_post [(''task_id'', ''2''), (''status'', ''open'')])
            (Some (demo_user ''volunteer1'')) demo_world =
            (Redirect ''volunteer_tasks'', demo_world\<lparr>db := s'\<rparr>) \<and>
         fetch_task s'
           (bound_id demo_env (req_form (demo_post [(''task_id'', ''2''), (''status'', ''open'')]) ''task_id''))
           = Some (tasks demo_store ! 1) \<and>
         tasks s' = tasks (db demo_world) \<and>
         fetch_incident s' (incident_id (tasks demo_store ! 1))
           = Some ((incidents demo_store ! 1)\<lparr>inc_status := ''open''\<rparr>))"
proof -
  let ?req = "demo_post [(''task_id'', ''2''), (''status'', ''open'')]"
  let ?u = "demo_user ''volunteer1''"
  have h1: "sess_role ?u = ''volunteer''" by (simp add: demo_eval)
  have h2: "fetch_task (db demo_world) (bound_id demo_env (req_form ?req ''task_id''))
              = Some (tasks demo_store ! 1)"
    by (simp add: demo_eval)
  have h3: "volunteer_id (tasks demo_store ! 1) \<noteq> Some (sess_id ?u)" by (simp add: demo_eval)
  have h4: "fetch_incident (db demo_world) (incident_id (tasks demo_store ! 1))
              = Some (incidents demo_store ! 1)"
    by (simp add: demo_eval)
  have h5: "req_form ?req ''status'' = Some ''open''" by (simp add: demo_eval)
  have h6: "''open'' \<in> set [''closed'', ''in_progress'', ''open'']" by simp
  have o: "inc_status (incidents demo_store ! 1) = ''closed''" by (simp add: demo_eval)
  have d: "distinct (map task_id (tasks (db demo_world)))" by (simp add: demo_eval)
  from update_foreign_task_sets_incident [OF h1 h2 h3 h4 h5 h6] h1 h2 h3 h4 h5 o d
  show ?thesis by blast
qed

section \<open>Broadcasting an alert\<close>

lemma send_to_all_counts:
  "send_to_all env msg wa ps (a, b, made) = (a', b', made') \<Longrightarrow> a' + b' = a + b + length ps"
proof (induction ps arbitrary: a b made)
  case Nil
  then show ?case by simp
next
  case (Cons p ps)
  obtain ok reply made1 where s: "send_sms_alert env made p msg wa = ((ok, reply), made1)"
    by (metis prod.exhaust)
  show ?case
  proof (cases ok)
    case True
    with Cons.prems s have "send_to_all env msg wa ps (a + 1, b, made1) = (a', b', made')" by simp
    from Cons.IH [OF this] show ?thesis by simp
  next
    case False
    with Cons.prems s have "send_to_all env msg wa ps (a, b + 1, made1) = (a', b', made')" by simp
    from Cons.IH [OF this] show ?thesis by simp
  qed
qed

lemma send_sms_alert_whatsapp_calls:
  assumes "twilio_client env = Some create" and "TWILIO_WHATSAPP_FROM env \<noteq> []"
  shows "snd (send_sms_alert env made p msg True) =
           made @ [\<lparr>sms_body = msg, sms_from = TWILIO_WHATSAPP_FROM env,
                    sms_to = (if take 9 p = ''whatsapp:'' then p else ''whatsapp:'' @ p)\<rparr>]"
  using assms by (simp add: send_sms_alert_def Let_def split: sum.splits)

lemma send_to_all_whatsapp_calls:
  assumes "twilio_client env = Some create" and "TWILIO_WHATSAPP_FROM env \<noteq> []"
  shows "snd (snd (send_to_all env msg True ps (a, b, made))) =
           made @ map (\<lambda>p. \<lparr>sms_body = msg, sms_from = TWILIO_WHATSAPP_FROM env,
                             sms_to = (if take 9 p = ''whatsapp:'' then p else ''whatsapp:'' @ p)\<rparr>) ps"
proof (induction ps arbitrary: a b made)
  case Nil
  then show ?case by simp
next
  case (Cons p ps)
  obtain ok reply made1 where s: "send_sms_alert env made p msg True = ((ok, reply), made1)"
    by (metis prod.exhaust)
  with send_sms_alert_whatsapp_calls [OF assms, of made p msg]
  have m: "made1 = made @ [\<lparr>sms_body = msg, sms_from = TWILIO_WHATSAPP_FROM env,
                    sms_to = (if take 9 p = ''whatsapp:'' then p else ''whatsapp:'' @ p)\<rparr>]"
    by simp
  show ?case
    using Cons.IH [of "a + 1" b made1] Cons.IH [of a "b + 1" made1] s m
    by (cases ok) simp_all
qed

lemma volunteer_phones_rows:
  "volunteer_phones s =
     map (\<lambda>v. the (phone v)) (filter (\<lambda>v. phone v \<noteq> None \<and> phone v \<noteq> Some []) (volunteers s))"
proof -
  have "concat (map (\<lambda>v. case phone v of None \<Rightarrow> [] | Some p \<Rightarrow> if p = [] then [] else [p]) vs) =
        map (\<lambda>v. the (phone v)) (filter (\<lambda>v. phone v \<noteq> None \<and> phone v \<noteq> Some []) vs)" for vs :: "'a volunteer list"
    by (induction vs) (auto split: option.splits)
  then show ?thesis by (simp add: volunteer_phones_def)
qed

lemma alerts_all_volunteers:
  assumes "twilio_client env = Some create"
    and "req_method req = POST"
    and "req_form req ''recipient_type'' = Some ''all_volunteers''"
    and "strip (form_get req ''message'') \<noteq> []"
    and "send_to_all env (strip (form_get req ''message'')) True (volunteer_phones (db w)) (0, 0, calls w)
           = (sent, failed, made)"
  shows "alerts env req w =
          (Render ''alerts''
             (Some (if volunteer_phones (db w) = [] then
                      (''error'', ''No volunteers with phone numbers found'')
                    else if 0 < sent then
                      (''success'',
                       ''Alert sent to '' @ str_nat sent @ '' volunteers'' @
                       (if 0 < failed then '' ('' @ str_nat failed @ '' failed)'' else []))
                    else
                      (''error'',
                       ''Failed to send alerts to all '' @ str_nat (length (volunteer_phones (db w))) @
                       '' volunteers''))),
           w\<lparr>calls := made\<rparr>)"
proof (cases "volunteer_phones (db w) = []")
  case True
  with assms(5) have "made = calls w" by simp
  with True assms(1-4) show ?thesis by (simp add: alerts_def Let_def)
next
  case False
  with assms show ?thesis by (simp add: alerts_def Let_def)
qed

text \<open>
  Claim C9. With a provider client configured, a POST to \<^verbatim>\<open>/alerts\<close> with a
  non-empty message and recipient type \<^verbatim>\<open>all_volunteers\<close> runs the sending loop over
  the volunteers whose phone is neither \<^verbatim>\<open>NULL\<close> nor empty: the counts it reports
  satisfy \<open>sent + failed = N\<close>, the number of those rows, whatever the provider answers
  to each call; and with a WhatsApp sender number set, the provider is called exactly
  once per such row, in row order, a refused call not stopping the later ones. The
  database is not written.
\<close>

theorem broadcast_reaches_every_volunteer:
  assumes "twilio_client env = Some create"
    and "req_method req = POST"
    and "req_form req ''recipient_type'' = Some ''all_volunteers''"
    and "strip (form_get req ''message'') \<noteq> []"
  shows "\<exists>sent failed.
           send_to_all env (strip (form_get req ''message'')) True (volunteer_phones (db w)) (0, 0, calls w)
             = (sent, failed, calls (snd (alerts env req w))) \<and>
           sent + failed =
             length (filter (\<lambda>v. phone v \<noteq> None \<and> phone v \<noteq> Some []) (volunteers (db w))) \<and>
           fst (alerts env req w) =
             Render ''alerts''
               (Some (if volunteer_phones (db w) = [] then
                        (''error'', ''No volunteers with phone numbers found'')
                      else if 0 < sent then
                        (''success'',
                         ''Alert sent to '' @ str_nat sent @ '' volunteers'' @
                         (if 0 < failed then '' ('' @ str_nat failed @ '' failed)'' else []))
                      else
                        (''error'',
                         ''Failed to send alerts to all '' @
                         str_nat (length (volunteer_phones (db w))) @ '' volunteers''))) \<and>
           db (snd (alerts env req w)) = db w \<and>
           (TWILIO_WHATSAPP_FROM env \<noteq> [] \<longrightarrow>
              calls (snd (alerts env req w)) =
                calls w @
                map (\<lambda>v. \<lparr>sms_body = strip (form_get req ''message''),
                           sms_from = TWILIO_WHATSAPP_FROM env,
                           sms_to = (if take 9 (the (phone v)) = ''whatsapp:'' then the (phone v)
                                     else ''whatsapp:'' @ the (phone v))\<rparr>)
                  (filter (\<lambda>v. phone v \<noteq> None \<and> phone v \<noteq> Some []) (volunteers (db w))))"
proof -
  let ?msg = "strip (form_get req ''message'')"
  obtain sent failed made where
    l: "send_to_all env ?msg True (volunteer_phones (db w)) (0, 0, calls w) = (sent, failed, made)"
    by (metis prod.exhaust)
  have a: "alerts env req w =
          (Render ''alerts''
             (Some (if volunteer_phones (db w) = [] then
                      (''error'', ''No volunteers with phone numbers found'')
                    else if 0 < sent then
                      (''success'',
                       ''Alert sent to '' @ str_nat sent @ '' volunteers'' @
                       (if 0 < failed then '' ('' @ str_nat failed @ '' failed)'' else []))
                    else
                      (''error'',
                       ''Failed to send alerts to all '' @ str_nat (length (volunteer_phones (db w))) @
                       '' volunteers''))),
           w\<lparr>calls := made\<rparr>)"
    by (rule alerts_all_volunteers [OF assms l])
  have n: "sent + failed =
             length (filter (\<lambda>v. phone v \<noteq> None \<and> phone v \<noteq> Some []) (volunteers (db w)))"
    using send_to_all_counts [OF l] by (simp add: volunteer_phones_rows)
  have c: "TWILIO_WHATSAPP_FROM env \<noteq> [] \<longrightarrow>
              made =
                calls w @
                map (\<lambda>v. \<lparr>sms_body = ?msg, sms_from = TWILIO_WHATSAPP_FROM env,
                           sms_to = (if take 9 (the (phone v)) = ''whatsapp:'' then the (phone v)
                                     else ''whatsapp:'' @ the (phone v))\<rparr>)
                  (filter (\<lambda>v. phone v \<noteq> None \<and> phone v \<noteq> Some []) (volunteers (db w)))"
  proof
    assume f: "TWILIO_WHATSAPP_FROM env \<noteq> []"
    from send_to_all_whatsapp_calls [OF assms(1) f, of ?msg "volunteer_phones (db w)" 0 0 "calls w"] l
    show "made =
                calls w @
                map (\<lambda>v. \<lparr>sms_body = ?msg, sms_from = TWILIO_WHATSAPP_FROM env,
                           sms_to = (if take 9 (the (phone v)) = ''whatsapp:'' then the (phone v)
                                     else ''whatsapp:'' @ the (phone v))\<rparr>)
                  (filter (\<lambda>v. phone v \<noteq> None \<and> phone v \<noteq> Some []) (volunteers (db w)))"
      by (simp add: volunteer_phones_rows comp_def)
  qed
  show ?thesis
    by (rule exI [of _ sent], rule exI [of _ failed]) (use l n c in \<open>simp add: a\<close>)
qed

theorem broadcast_reaches_every_volunteer_witness:
  "twilio_client demo_env = Some (the (twilio_client demo_env)) \<and>
   req_method (demo_post [(''recipient_type'', ''all_volunteers''), (''message'', '' Flood warning '')]) = POST \<and>
   req_form (demo_post [(''recipient_type'', ''all_volunteers''), (''message'', '' Flood warning '')])
     ''recipient_type'' = Some ''all_volunteers'' \<and>
   strip (form_get (demo_post [(''recipient_type'', ''all_volunteers''), (''message'', '' Flood warning '')])
     ''message'') = ''Flood warning'' \<and>
   length (filter (\<lambda>v. phone v \<noteq> None \<and> phone v \<noteq> Some []) (volunteers (db demo_world))) = 3 \<and>
   (\<exists>sent failed.
      send_to_all demo_env ''Flood warning'' True (volunteer_phones (db demo_world)) (0, 0, [])
        = (sent, failed,
           calls (snd (alerts demo_env
             (demo_post [(''recipient_type'', ''all_volunteers''), (''message'', '' Flood warning '')])
             demo_world))) \<and>
      sent + failed = 3) \<and>
   alerts demo_env
     (demo_post [(''recipient_type'', ''all_volunteers''), (''message'', '' Flood warning '')]) demo_world =
     (Render ''alerts'' (Some (''success'', ''Alert sent to 2 volunteers (1 failed)'')),
      demo_world\<lparr>calls :=
        [\<lparr>sms_body = ''Flood warning'', sms_from = ''whatsapp:+14155238886'',
          sms_to = ''whatsapp:+919000000011''\<rparr>,
         \<lparr>sms_body = ''Flood warning'', sms_from = ''whatsapp:+14155238886'',
          sms_to = ''whatsapp:+919000000012''\<rparr>,
         \<lparr>sms_body = ''Flood warning'', sms_from = ''whatsapp:+14155238886'',
          sms_to = ''whatsapp:+919000000014''\<rparr>]\<rparr>)"
proof -
  let ?req = "demo_post [(''recipient_type'', ''all_volunteers''), (''message'', '' Flood warning '')]"
  have h1: "twilio_client demo_env = Some (the (twilio_client demo_env))" by (simp add: demo_env_def)
  have h2: "req_method ?req = POST" by (simp add: demo_post_def)
  have h3: "req_form ?req ''recipient_type'' = Some ''all_volunteers''" by (simp add: demo_post_def)
  have m: "strip (form_get ?req ''message'') = ''Flood warning''"
    by (simp add: demo_post_def form_get_def strip_def py_isspace_def)
  then have h4: "strip (form_get ?req ''message'') \<noteq> []" by simp
  have n: "length (filter (\<lambda>v. phone v \<noteq> None \<and> phone v \<noteq> Some []) (volunteers (db demo_world))) = 3"
    by (simp add: demo_world_def demo_store_def)
  have c: "calls demo_world = []" by (simp add: demo_world_def)
  have e: "alerts demo_env ?req demo_world =
     (Render ''alerts'' (Some (''success'', ''Alert sent to 2 volunteers (1 failed)'')),
      demo_world\<lparr>calls :=
        [\<lparr>sms_body = ''Flood warning'', sms_from = ''whatsapp:+14155238886'',
          sms_to = ''whatsapp:+919000000011''\<rparr>,
         \<lparr>sms_body = ''Flood warning'', sms_from = ''whatsapp:+14155238886'',
          sms_to = ''whatsapp:+919000000012''\<rparr>,
         \<lparr>sms_body = ''Flood warning'', sms_from = ''whatsapp:+14155238886'',
          sms_to = ''whatsapp:+919000000014''\<rparr>]\<rparr>)"
    by (simp add: alerts_def Let_def m h2 h3 volunteer_phones_def send_sms_alert_def digit_char_def
        demo_world_def demo_store_def demo_env_def)
  from broadcast_reaches_every_volunteer [OF h1 h2 h3 h4, of demo_world]
  have "\<exists>sent failed.
      send_to_all demo_env ''Flood warning'' True (volunteer_phones (db demo_world)) (0, 0, [])
        = (sent, failed, calls (snd (alerts demo_env ?req demo_world))) \<and>
      sent + failed = 3"
    unfolding m n c by blast
  with h1 h2 h3 m n e show ?thesis by blast
qed

section \<open>Timestamps\<close>








section \<open>Reporting an incident\<close>









section \<open>Registration\<close>

lemmas demo_register_eval =
  register_def Let_def form_get_def demo_post_def demo_env_def demo_store_def seed_users_def
  strip_def py_isspace_def next_rowid_def




text \<open>
  Claim C7, as the code has it. The seeded users have roles among the five of the
  specification. Registration stores the submitted role, stripped, as it is, and refuses
  only an empty one: a user it creates has a non-empty role, and the roles in the table
  stay among the five when the submitted role is one of them.
\<close>

theorem register_stores_submitted_role:
  "list_all (\<lambda>u. role u \<in> set spec_roles) (seed_users env) \<and>
   (users (snd (register env req s)) = users s \<or>
    (\<exists>u. users (snd (register env req s)) = users s @ [u] \<and>
         role u = strip (form_get req ''role'') \<and> role u \<noteq> [])) \<and>
   (list_all (\<lambda>u. role u \<in> set spec_roles) (users s) \<and>
    strip (form_get req ''role'') \<in> set spec_roles \<longrightarrow>
      list_all (\<lambda>u. role u \<in> set spec_roles) (users (snd (register env req s))))"
proof (intro conjI)
  show "list_all (\<lambda>u. role u \<in> set spec_roles) (seed_users env)"
    by (simp add: seed_users_def spec_roles_def)
  show "users (snd (register env req s)) = users s \<or>
    (\<exists>u. users (snd (register env req s)) = users s @ [u] \<and>
         role u = strip (form_get req ''role'') \<and> role u \<noteq> [])"
    by (simp add: register_def Let_def)
  then show "list_all (\<lambda>u. role u \<in> set spec_roles) (users s) \<and>
    strip (form_get req ''role'') \<in> set spec_roles \<longrightarrow>
      list_all (\<lambda>u. role u \<in> set spec_roles) (users (snd (register env req s)))"
    by auto
qed

theorem register_stores_submitted_role_witness:
  "list_all (\<lambda>u. role u \<in> set spec_roles) (users demo_store) \<and>
   strip (form_get (demo_post [(''username'', ''zed''), (''password'', ''pw''), (''role'', ''volunteer'')])
     ''role'') = ''volunteer'' \<and>
   ''volunteer'' \<in> set spec_roles \<and>
   list_all (\<lambda>u. role u \<in> set spec_roles)
     (users (snd (register demo_env
        (demo_post [(''username'', ''zed''), (''password'', ''pw''), (''role'', ''volunteer'')])
        demo_store)))"
proof -
  let ?r = "demo_post [(''username'', ''zed''), (''password'', ''pw''), (''role'', ''volunteer'')]"
  have i: "list_all (\<lambda>u. role u \<in> set spec_roles) (users demo_store)"
    by (simp add: demo_store_def seed_users_def spec_roles_def)
  have f: "strip (form_get ?r ''role'') = ''volunteer''"
    by (simp add: form_get_def demo_post_def strip_def py_isspace_def)
  have v: "''volunteer'' \<in> set spec_roles" by (simp add: spec_roles_def)
  from register_stores_submitted_role [of demo_env ?r demo_store] i v
  have "list_all (\<lambda>u. role u \<in> set spec_roles) (users (snd (register demo_env ?r demo_store)))"
    unfolding f by blast
  with i f v show ?thesis by blast
qed

text \<open>
  The claim as stated (registration only creates users with one of the five roles)
  fails: the role \<^verbatim>\<open>superuser\<close> is stored.
\<close>

theorem register_arbitrary_role_counterexample:
  "list_all (\<lambda>u. role u \<in> set spec_roles) (users demo_store) \<and>
   map role (users (snd (register demo_env
      (demo_post [(''username'', ''zed''), (''password'', ''pw''), (''role'', ''superuser'')]) demo_store))) =
     map role (users demo_store) @ [''superuser''] \<and>
   ''superuser'' \<notin> set spec_roles"
  by (simp add: demo_register_eval spec_roles_def)

end
